theory Spec2Isabelle
  imports Main "HOL-Library.Word" "HOL-Library.Sublist"
begin

unbundle bit_operations_syntax

section \<open>Data model of the datanode request handlers\<close>

text \<open>
  The handlers of \<^verbatim>\<open>datanode/server_pkg_op.go\<close> are embedded as functions on a packet
  and a trace. The trace is the list of calls the handler makes to its collaborators
  (storage engines, connection, buffer pool, disk counters, logs, partition space, master),
  in program order. What a collaborator returns is read from a record of functions
  (\<open>extern\<close>) that receives the trace so far and the call, so that the same call may
  answer differently at different moments of one execution.
\<close>

type_synonym u8 = "8 word"
type_synonym u32 = "32 word"
type_synonym u64 = "64 word"
type_synonym i64 = "64 word"
type_synonym bytes = "u8 list"

text \<open>A Go \<^verbatim>\<open>error\<close> is its message text; \<open>None\<close> is \<^verbatim>\<open>nil\<close>.\<close>

type_synonym error = "string option"

text \<open>
  The opcodes of the switch in \<^verbatim>\<open>operatePacket\<close>. Their numeric values are declared in
  package proto; an opcode that is none of them carries its value.
\<close>

datatype opcode =
    OpCreateFile | OpWrite | OpRead | OpBlobFileRepairRead | OpStreamRead | OpMarkDelete
  | OpNotifyCompactBlobFile | OpNotifyExtentRepair | OpNotifyBlobRepair | OpGetWatermark
  | OpExtentStoreGetAllWaterMark | OpBlobStoreGetAllWaterMark | OpCreateDataPartition
  | OpLoadDataPartition | OpDeleteDataPartition | OpDataNodeHeartbeat
  | OpGetDataPartitionMetrics | OpOther u8

datatype storeMode = BlobStoreMode | ExtentStoreMode | OtherStoreMode u8

datatype resultCode = OpOk | OtherResult u8

datatype partitionStatus = ReadOnly | OtherStatus int

datatype flag = WriteFlag | ReadFlag

datatype taskStatus = TaskSuccess | TaskFail

datatype conn = Conn (RemoteAddr: string)

text \<open>The names of the action strings and of the storage errors, declared outside this file.\<close>

datatype action =
    LogCreateFile | LogMarkDel | LogWrite | LogRead | LogGetWm | LogGetAllWm
  | LogCompactBlobFile | LogRepair | ActionStreamRead | ActionWriteToCli
  | ActionFollowerRequireBlobFileRepairCmd | ActionGetDataPartitionMetrics

datatype storageError = ErrorPartitionReadOnly | ErrSyscallNoSpace | ErrStoreTypeMismatch

record Packet =
  Opcode :: opcode
  StoreMode :: storeMode
  PartitionID :: u32
  FileID :: u64
  Offset :: i64
  Size :: u32
  Data :: bytes
  Crc :: u32
  ResultCode :: resultCode
  StartT :: int

text \<open>
  The state of the partition that \<^verbatim>\<open>pkg.DataPartition\<close> refers to, as far as the handlers
  read it: \<^verbatim>\<open>Status()\<close> and \<^verbatim>\<open>Available()\<close>. The caller of the dispatcher has
  resolved the partition of the packet: the reference is not nil and holds a
  \<^verbatim>\<open>*dataPartition\<close>, so that the type assertions of \<^verbatim>\<open>handleBlobFileRepairRead\<close> and
  \<^verbatim>\<open>handleGetDataPartitionMetrics\<close> do not fail.
\<close>

record dataPartition =
  Status :: partitionStatus
  Available :: int

record RepairBlobFileTask =
  BlobFileId :: int
  StartObj :: u64
  EndObj :: u64

record taskResponse =
  RespPartitionId :: u64
  RespStatus :: taskStatus
  RespResult :: string

datatype response =
    PartitionResponse taskResponse
  | LoadResponse u64 bytes
  | HeartBeatResponse bytes taskStatus string

record AdminTask =
  OpCode :: opcode
  Request :: bytes
  Response :: "response option"

record CreateDataPartitionRequest =
  CreateVolumeId :: string
  CreatePartitionId :: u64
  CreatePartitionSize :: int
  CreatePartitionType :: string

record DeleteDataPartitionRequest =
  DeletePartitionId :: u64

record LoadDataPartitionRequest =
  LoadPartitionId :: u64

record HeartBeatRequest =
  MasterAddr :: string

datatype level = LogErrorf | LogError | LogWarnf | LogDebugf | LogInfo | LogReadL | LogWriteL

text \<open>One call to a collaborator, with its arguments, grouped by collaborator.\<close>

datatype storeCall =
    ExtentCreate u64 u64 bool
  | BlobWrite u32 u64 i64 bytes u32
  | ExtentWrite u64 i64 i64 bytes u32
  | BlobMarkDelete u32 i64 i64
  | ExtentMarkDelete u64
  | BlobRead u32 i64 i64 bytes
  | ExtentRead u64 i64 i64 bytes

datatype queryCall =
    BlobGetWatermark u64
  | ExtentGetWatermark u64 bool
  | ExtentGetAllWatermark
  | BlobGetAllWatermark
  | GetLastOid u32
  | MarshalMetrics u32

datatype spaceCall =
    GetPartition u32
  | GetDisk u32
  | hasExsitCompactTask string
  | putCompactTask u32 int bool
  | MergeExtentStoreRepair bytes
  | MergeBlobStoreRepair bytes
  | CreatePartition string u32 int string
  | DeletePartition u32
  | LoadPartition u32

datatype masterCall =
    fillHeartBeatResponse
  | AddNode string
  | MasterRequest AdminTask

datatype umpCall = BeforeTP string | AfterTP string error

datatype event =
    Store storeCall
  | Query queryCall
  | Space spaceCall
  | Master masterCall
  | Ump umpCall
  | Log level string
  | SyncData u32 u64 u64 Packet conn
  | addDiskErrs u32 error flag
  | BuffersGet nat
  | BuffersPut bytes
  | WriteToConn Packet conn
  | ConnClose conn

text \<open>
  The collaborators. \<open>retErr\<close>, \<open>retBytes\<close>, \<open>retCrc\<close>, \<open>retOid\<close>, \<open>retBool\<close> and
  \<open>retPacket\<close> give the error, the byte slice, the checksum, the object id, the boolean and
  the packet (where the call receives the packet to fill) that a call returns, from the
  trace before the call and the call. The other fields are the constants and the methods of
  \<^verbatim>\<open>Packet\<close>, of the tasks and of the JSON codec that this file uses and does not declare.
\<close>

record extern =
  retErr :: "event list \<Rightarrow> event \<Rightarrow> error"
  retBytes :: "event list \<Rightarrow> event \<Rightarrow> bytes"
  retCrc :: "event list \<Rightarrow> event \<Rightarrow> u32"
  retOid :: "event list \<Rightarrow> event \<Rightarrow> u64"
  retBool :: "event list \<Rightarrow> event \<Rightarrow> bool"
  retPacket :: "event list \<Rightarrow> event \<Rightarrow> Packet"
  now :: "event list \<Rightarrow> int"
  clusterId :: string
  BlockSize :: nat
  ReadBlockSize :: nat
  actionText :: "action \<Rightarrow> string"
  errorText :: "storageError \<Rightarrow> string"
  PackErrorBody :: "string \<Rightarrow> string \<Rightarrow> Packet \<Rightarrow> Packet"
  PackOkReply :: "Packet \<Rightarrow> Packet"
  PackOkReadReply :: "Packet \<Rightarrow> Packet"
  PackOkWithBody :: "bytes \<Rightarrow> Packet \<Rightarrow> Packet"
  IsErrPack :: "Packet \<Rightarrow> bool"
  GetOpMsg :: "Packet \<Rightarrow> string"
  GetUniqueLogId :: "Packet \<Rightarrow> string"
  ActionMsg :: "Packet \<Rightarrow> string \<Rightarrow> string \<Rightarrow> int \<Rightarrow> error \<Rightarrow> string"
  unmarshalRepairTask :: "bytes \<Rightarrow> string + RepairBlobFileTask"
  RepairTaskToString :: "RepairBlobFileTask \<Rightarrow> string"
  unmarshalAdminTask :: "bytes \<Rightarrow> AdminTask"
  AdminTaskToString :: "AdminTask \<Rightarrow> string"
  unmarshalCreateRequest :: "bytes \<Rightarrow> CreateDataPartitionRequest"
  unmarshalDeleteRequest :: "bytes \<Rightarrow> DeleteDataPartitionRequest \<times> error"
  unmarshalLoadRequest :: "bytes \<Rightarrow> LoadDataPartitionRequest"
  unmarshalHeartBeatRequest :: "bytes \<Rightarrow> HeartBeatRequest"
  unmarshalMembers :: "bytes \<Rightarrow> error"
  marshalTask :: "AdminTask \<Rightarrow> bytes \<times> error"
  CompactTaskToString :: "u32 \<Rightarrow> int \<Rightarrow> bool \<Rightarrow> string"

section \<open>Formatting\<close>

definition digit :: "nat \<Rightarrow> char" where
  "digit n = ''0123456789'' ! n"

text \<open>Decimal text of a number, as \<^verbatim>\<open>strconv.Itoa\<close> and \<^verbatim>\<open>%v\<close> print an unsigned integer.\<close>

function Itoa :: "nat \<Rightarrow> string" where
  "Itoa n = (if n < 10 then [digit n] else Itoa (n div 10) @ [digit (n mod 10)])"
  by pat_completeness auto
termination
  by (relation "measure id") auto

declare Itoa.simps [simp del]

text \<open>
  \<^verbatim>\<open>errors.Annotatef(err, format, args...)\<close> of juju/errors: the text of the result is the
  formatted annotation, a colon and a space, and the text of \<^verbatim>\<open>err\<close>.
\<close>

definition Annotatef :: "string \<Rightarrow> string \<Rightarrow> string" where
  "Annotatef err msg = msg @ '': '' @ err"

text \<open>The conversions \<^verbatim>\<open>string(b)\<close> and \<^verbatim>\<open>[]byte(s)\<close>.\<close>

definition string_of_bytes :: "bytes \<Rightarrow> string" where
  "string_of_bytes b = map (\<lambda>x. char_of (unat x)) b"

definition bytes_of_string :: "string \<Rightarrow> bytes" where
  "bytes_of_string s = map of_char s"

definition ErrorUnknownOp :: string where
  "ErrorUnknownOp = ''unknown opcode''"

text \<open>\<^verbatim>\<open>binary.BigEndian.Uint64\<close> on a slice of at least 8 bytes.\<close>

definition BigEndian_Uint64 :: "bytes \<Rightarrow> u64" where
  "BigEndian_Uint64 b = foldl (\<lambda>acc x. push_bit 8 acc OR ucast x) 0 (take 8 b)"

text \<open>
  The unsigned number that a sequence of bytes writes in base 256, the most significant byte
  first.
\<close>

definition beNat :: "bytes \<Rightarrow> nat" where
  "beNat b = foldl (\<lambda>acc x. 256 * acc + unat x) 0 b"

text \<open>
  The payload of a packet: \<open>Size\<close> is the length of the payload that \<open>Data\<close> holds, so
  the payload is the first \<open>Size\<close> bytes of \<open>Data\<close>.
\<close>

definition payload :: "Packet \<Rightarrow> bytes" where
  "payload pkg = take (unat (Size pkg)) (Data pkg)"

section \<open>Create, Write, Read, MarkDelete and the watermark queries\<close>

text \<open>
  The deferred function of \<^verbatim>\<open>handleCreateFile\<close> and \<^verbatim>\<open>handleWrite\<close>: an error reply
  annotated with the request, or the Ok reply.
\<close>

definition deferReply :: "extern \<Rightarrow> action \<Rightarrow> string \<Rightarrow> Packet \<Rightarrow> error \<Rightarrow> Packet" where
  "deferReply E act what pkg err =
     (case err of
        Some e \<Rightarrow>
          PackErrorBody E (actionText E act)
            (Annotatef e (''Request('' @ GetUniqueLogId E pkg @ '') '' @ what @ '' Error'')) pkg
      | None \<Rightarrow> PackOkReply E pkg)"

definition handleCreateFile ::
  "extern \<Rightarrow> dataPartition \<Rightarrow> Packet \<Rightarrow> event list \<Rightarrow> Packet \<times> event list" where
  "handleCreateFile E dp pkg tr =
     (let (err, tr') =
        (if Status dp = ReadOnly then (Some (errorText E ErrorPartitionReadOnly), tr)
         else if Available dp \<le> 0 then (Some (errorText E ErrSyscallNoSpace), tr)
         else
           (case StoreMode pkg of
              BlobStoreMode \<Rightarrow>
                (Some (Annotatef (errorText E ErrStoreTypeMismatch)
                   '' CreateFile only support ExtentMode DataPartition''), tr)
            | ExtentStoreMode \<Rightarrow>
                (let ino = (if 8 \<le> length (Data pkg) \<and> 8 \<le> Size pkg
                            then BigEndian_Uint64 (Data pkg) else 0);
                     ev = Store (ExtentCreate (FileID pkg) ino False)
                 in (retErr E tr ev, tr @ [ev]))
            | OtherStoreMode m \<Rightarrow> (None, tr)))
      in (deferReply E LogCreateFile ''CreateFile'' pkg err, tr'))"

definition handleWrite ::
  "extern \<Rightarrow> dataPartition \<Rightarrow> Packet \<Rightarrow> event list \<Rightarrow> Packet \<times> event list" where
  "handleWrite E dp pkg tr =
     (let (err, tr') =
        (if Status dp = ReadOnly then (Some (errorText E ErrorPartitionReadOnly), tr)
         else if Available dp \<le> 0 then (Some (errorText E ErrSyscallNoSpace), tr)
         else
           (case StoreMode pkg of
              BlobStoreMode \<Rightarrow>
                (let ev = Store (BlobWrite (ucast (FileID pkg)) (Offset pkg) (ucast (Size pkg))
                            (Data pkg) (Crc pkg));
                     err = retErr E tr ev
                 in (err, tr @ [ev, addDiskErrs (PartitionID pkg) err WriteFlag]))
            | ExtentStoreMode \<Rightarrow>
                (let ev = Store (ExtentWrite (FileID pkg) (Offset pkg) (ucast (Size pkg))
                            (Data pkg) (Crc pkg));
                     err = retErr E tr ev;
                     tr1 = tr @ [ev, addDiskErrs (PartitionID pkg) err WriteFlag]
                 in (err,
                     if err = None \<and> Opcode pkg = OpWrite \<and> unat (Size pkg) = BlockSize E
                     then tr1 @ [BuffersPut (Data pkg)] else tr1))
            | OtherStoreMode m \<Rightarrow> (None, tr)))
      in (deferReply E LogWrite ''Write'' pkg err, tr'))"

definition handleMarkDelete :: "extern \<Rightarrow> Packet \<Rightarrow> event list \<Rightarrow> Packet \<times> event list" where
  "handleMarkDelete E pkg tr =
     (let (err, tr') =
        (case StoreMode pkg of
           BlobStoreMode \<Rightarrow>
             (let ev = Store (BlobMarkDelete (ucast (FileID pkg)) (Offset pkg) (ucast (Size pkg)))
              in (retErr E tr ev, tr @ [ev]))
         | ExtentStoreMode \<Rightarrow>
             (let ev = Store (ExtentMarkDelete (FileID pkg)) in (retErr E tr ev, tr @ [ev]))
         | OtherStoreMode m \<Rightarrow> (None, tr))
      in (case err of
            Some e \<Rightarrow>
              (PackErrorBody E (actionText E LogMarkDel)
                 (Annotatef e (''Request('' @ GetUniqueLogId E pkg @ '') MarkDelete Error'')) pkg,
               tr')
          | None \<Rightarrow> (PackOkReply E pkg, tr')))"

definition handleRead :: "extern \<Rightarrow> Packet \<Rightarrow> event list \<Rightarrow> Packet \<times> event list" where
  "handleRead E pkg0 tr =
     (let pkg = pkg0\<lparr>Data := replicate (unat (Size pkg0)) 0\<rparr>;
          (pkg1, err, tr') =
            (case StoreMode pkg of
               BlobStoreMode \<Rightarrow>
                 (let ev = Store (BlobRead (ucast (FileID pkg)) (Offset pkg) (ucast (Size pkg))
                             (Data pkg));
                      err = retErr E tr ev
                  in (pkg\<lparr>Crc := retCrc E tr ev, Data := retBytes E tr ev\<rparr>, err,
                      tr @ [ev, addDiskErrs (PartitionID pkg) err ReadFlag]))
             | ExtentStoreMode \<Rightarrow>
                 (let ev = Store (ExtentRead (FileID pkg) (Offset pkg) (ucast (Size pkg))
                             (Data pkg));
                      err = retErr E tr ev
                  in (pkg\<lparr>Crc := retCrc E tr ev, Data := retBytes E tr ev\<rparr>, err,
                      tr @ [ev, addDiskErrs (PartitionID pkg) err ReadFlag]))
             | OtherStoreMode m \<Rightarrow> (pkg, None, tr))
      in (case err of
            None \<Rightarrow> (PackOkReadReply E pkg1, tr')
          | Some e \<Rightarrow> (PackErrorBody E (actionText E LogRead) e pkg1, tr')))"

text \<open>
  \<open>retBytes\<close> of a watermark call is the JSON text of the file information it returns; with
  no store call the information is the nil pointer, whose JSON text is \<^verbatim>\<open>null\<close>.
\<close>

definition jsonNull :: bytes where
  "jsonNull = bytes_of_string ''null''"

definition handleGetWatermark :: "extern \<Rightarrow> Packet \<Rightarrow> event list \<Rightarrow> Packet \<times> event list" where
  "handleGetWatermark E pkg tr =
     (let (buf, err, tr') =
        (case StoreMode pkg of
           BlobStoreMode \<Rightarrow>
             (let ev = Query (BlobGetWatermark (FileID pkg))
              in (retBytes E tr ev, retErr E tr ev, tr @ [ev]))
         | ExtentStoreMode \<Rightarrow>
             (let ev = Query (ExtentGetWatermark (FileID pkg) False)
              in (retBytes E tr ev, retErr E tr ev, tr @ [ev]))
         | OtherStoreMode m \<Rightarrow> (jsonNull, None, tr))
      in (case err of
            Some e \<Rightarrow>
              (PackErrorBody E (actionText E LogGetWm)
                 (Annotatef e (''Request('' @ GetUniqueLogId E pkg @ '') handleGetWatermark Error''))
                 pkg, tr')
          | None \<Rightarrow> (PackOkWithBody E buf pkg, tr')))"

definition handleExtentStoreGetAllWatermark ::
  "extern \<Rightarrow> Packet \<Rightarrow> event list \<Rightarrow> Packet \<times> event list" where
  "handleExtentStoreGetAllWatermark E pkg tr =
     (let ev = Query ExtentGetAllWatermark
      in (case retErr E tr ev of
            Some e \<Rightarrow>
              (PackErrorBody E (actionText E LogGetAllWm)
                 (Annotatef e (''Request('' @ GetUniqueLogId E pkg
                    @ '') handleExtentStoreGetAllWatermark Error'')) pkg, tr @ [ev])
          | None \<Rightarrow> (PackOkWithBody E (retBytes E tr ev) pkg, tr @ [ev])))"

definition handleBlobStoreGetAllWatermark ::
  "extern \<Rightarrow> Packet \<Rightarrow> event list \<Rightarrow> Packet \<times> event list" where
  "handleBlobStoreGetAllWatermark E pkg tr =
     (let ev = Query BlobGetAllWatermark
      in (case retErr E tr ev of
            Some e \<Rightarrow>
              (PackErrorBody E (actionText E LogGetAllWm)
                 (Annotatef e (''Request('' @ GetUniqueLogId E pkg
                    @ '') OpBlobStoreGetAllWatermark Error'')) pkg, tr @ [ev])
          | None \<Rightarrow> (PackOkWithBody E (retBytes E tr ev) pkg, tr @ [ev])))"

section \<open>Streaming read\<close>

text \<open>
  One iteration of the loop of \<^verbatim>\<open>handleStreamRead\<close>, entered with \<open>needReplySize > 0\<close>:
  either the handler returns (\<open>Stop\<close>) or the loop goes on with the new
  \<open>needReplySize\<close>, \<open>offset\<close>, packet and trace. \<^verbatim>\<open>WriteToConn\<close> sends the packet and
  leaves it as it is.
\<close>

datatype iteration = Stop "Packet \<times> event list" | Continue u32 i64 Packet "event list"

definition streamReadIter ::
  "extern \<Rightarrow> conn \<Rightarrow> u32 \<Rightarrow> i64 \<Rightarrow> Packet \<Rightarrow> event list \<Rightarrow> iteration" where
  "streamReadIter E connect needReplySize offset request tr =
     (let umpKey = clusterId E @ ''_datanode_'' @ ''Read'';
          currReadSize = (word_of_nat (min (unat needReplySize) (ReadBlockSize E)) :: u32);
          pooled = (unat currReadSize = ReadBlockSize E);
          buf = (if pooled then retBytes E tr (BuffersGet (ReadBlockSize E))
                 else replicate (unat currReadSize) 0);
          tr1 = (if pooled then tr @ [BuffersGet (ReadBlockSize E)] else tr);
          tr2 = tr1 @ [Ump (BeforeTP umpKey)];
          rd = Store (ExtentRead (FileID request) offset (ucast currReadSize) buf);
          err = retErr E tr2 rd;
          request1 = request\<lparr>Data := retBytes E tr2 rd, Crc := retCrc E tr2 rd\<rparr>;
          tr3 = tr2 @ [rd, Ump (AfterTP umpKey err)]
      in (case err of
            Some e \<Rightarrow>
              (let request2 = PackErrorBody E (actionText E ActionStreamRead) e request1;
                   w = WriteToConn request2 connect
               in (case retErr E tr3 w of
                     Some e' \<Rightarrow>
                       Stop (request2, tr3 @ [w, Log LogErrorf
                         (ActionMsg E request2 (actionText E ActionWriteToCli)
                            (RemoteAddr connect) (StartT request2) (Some e'))])
                   | None \<Rightarrow> Stop (request2, tr3 @ [w])))
          | None \<Rightarrow>
              (let request2 = request1\<lparr>Size := currReadSize, ResultCode := OpOk\<rparr>;
                   w = WriteToConn request2 connect
               in (case retErr E tr3 w of
                     Some e' \<Rightarrow>
                       Stop (request2, tr3 @ [w, Log LogErrorf
                         (ActionMsg E request2 (actionText E ActionWriteToCli)
                            (RemoteAddr connect) (StartT request2) (Some e')),
                         ConnClose connect])
                   | None \<Rightarrow>
                       Continue (needReplySize - currReadSize) (offset + ucast currReadSize)
                         request2
                         (if pooled then tr3 @ [w, BuffersPut (Data request2)]
                          else tr3 @ [w])))))"

text \<open>The loop. \<open>None\<close>: the loop never ends.\<close>

partial_function (option) streamReadLoop ::
  "extern \<Rightarrow> conn \<Rightarrow> u32 \<Rightarrow> i64 \<Rightarrow> Packet \<Rightarrow> event list \<Rightarrow> (Packet \<times> event list) option"
  where
  "streamReadLoop E connect needReplySize offset request tr =
     (if needReplySize \<le> 0 then Some (request, tr)
      else
        (case streamReadIter E connect needReplySize offset request tr of
           Stop r \<Rightarrow> Some r
         | Continue n off rq t \<Rightarrow> streamReadLoop E connect n off rq t))"

declare streamReadLoop.simps [code]

definition handleStreamRead ::
  "extern \<Rightarrow> Packet \<Rightarrow> conn \<Rightarrow> event list \<Rightarrow> (Packet \<times> event list) option" where
  "handleStreamRead E request connect tr =
     streamReadLoop E connect (Size request) (Offset request) request tr"

section \<open>Blob file repair read\<close>

definition handleBlobFileRepairRead ::
  "extern \<Rightarrow> Packet \<Rightarrow> conn \<Rightarrow> event list \<Rightarrow> Packet \<times> event list" where
  "handleBlobFileRepairRead E pkg c tr =
     (case unmarshalRepairTask E (Data pkg) of
        Inl e \<Rightarrow>
          (PackErrorBody E (actionText E ActionFollowerRequireBlobFileRepairCmd)
             (Annotatef e (''Request('' @ GetUniqueLogId E pkg
                @ '') handleBlobFileRepairRead unmash task error '')) pkg, tr)
      | Inr task \<Rightarrow>
          (let blobfileID = (word_of_int (BlobFileId task) :: u32);
               q = Query (GetLastOid blobfileID);
               localOid = retOid E tr q;
               tr1 = tr @ [q, Log LogWarnf
                 (''Request('' @ GetUniqueLogId E pkg
                    @ '') handleBlobFileRepairRead Recive RepairTask(''
                    @ RepairTaskToString E task @ '') localOid('' @ Itoa (unat localOid) @ '')'')]
           in if localOid < EndObj task then
                (PackErrorBody E (actionText E ActionFollowerRequireBlobFileRepairCmd)
                   (Annotatef
                      ('' handleBlobFileRepairRead Recive RepairTask('' @ RepairTaskToString E task
                         @ '') but localOid('' @ Itoa (unat localOid) @ '')'')
                      (''Request('' @ GetUniqueLogId E pkg @ '') handleBlobFileRepairRead Error''))
                   pkg, tr1)
              else
                (let ev = SyncData blobfileID (StartObj task) localOid pkg c;
                     pkg1 = retPacket E tr1 ev
                 in (case retErr E tr1 ev of
                       Some e \<Rightarrow>
                         (PackErrorBody E (actionText E ActionFollowerRequireBlobFileRepairCmd)
                            (Annotatef e (''Request('' @ RepairTaskToString E task
                               @ '') handleBlobFileRepairRead Recive RepairTask(''
                               @ GetUniqueLogId E pkg @ '') SyncData  Error'')) pkg1,
                          tr1 @ [ev])
                     | None \<Rightarrow> (pkg1, tr1 @ [ev])))))"

section \<open>Compaction and repair notifications\<close>

text \<open>\<^verbatim>\<open>fmt.Errorf\<close> with a format that has no verb and one string argument.\<close>

definition ErrorfExtra :: "string \<Rightarrow> string \<Rightarrow> string" where
  "ErrorfExtra format arg = format @ ''%!(EXTRA string='' @ arg @ '')''"

definition handleNotifyCompact :: "extern \<Rightarrow> Packet \<Rightarrow> event list \<Rightarrow> Packet \<times> event list" where
  "handleNotifyCompact E pkg tr =
     (let blobFile = sint (FileID pkg);
          partitionId = PartitionID pkg;
          task = CompactTaskToString E partitionId blobFile False;
          what = ''Request('' @ GetUniqueLogId E pkg @ '') handleNotifyCompact Error'';
          g = Space (GetPartition partitionId)
      in if \<not> retBool E tr g then
           (PackErrorBody E (actionText E LogCompactBlobFile)
              (Annotatef (ErrorfExtra ''partition not found'' task) what) pkg, tr @ [g])
         else
           (let d = Space (GetDisk partitionId); tr1 = tr @ [g, d]
            in (case retErr E (tr @ [g]) d of
                  Some e \<Rightarrow>
                    (PackErrorBody E (actionText E LogCompactBlobFile)
                       (Annotatef (ErrorfExtra ''disk not found''
                          (string_of_bytes (retBytes E (tr @ [g]) d))) what) pkg, tr1)
                | None \<Rightarrow>
                    (let h = Space (hasExsitCompactTask task)
                     in if retBool E tr1 h then (PackOkReply E pkg, tr1 @ [h])
                        else
                          (let u = Space (putCompactTask partitionId blobFile False)
                           in (case retErr E (tr1 @ [h]) u of
                                 Some e \<Rightarrow>
                                   (PackErrorBody E (actionText E LogCompactBlobFile)
                                      (Annotatef e what) pkg, tr1 @ [h, u])
                               | None \<Rightarrow> (PackOkReply E pkg, tr1 @ [h, u])))))))"

definition handleNotifyExtentRepair ::
  "extern \<Rightarrow> Packet \<Rightarrow> event list \<Rightarrow> Packet \<times> event list" where
  "handleNotifyExtentRepair E pkg tr =
     (case unmarshalMembers E (Data pkg) of
        Some e \<Rightarrow> (PackErrorBody E (actionText E LogRepair) e pkg, tr)
      | None \<Rightarrow> (PackOkReply E pkg, tr @ [Space (MergeExtentStoreRepair (Data pkg))]))"

definition handleNotifyBlobRepair ::
  "extern \<Rightarrow> Packet \<Rightarrow> event list \<Rightarrow> Packet \<times> event list" where
  "handleNotifyBlobRepair E pkg tr =
     (case unmarshalMembers E (Data pkg) of
        Some e \<Rightarrow> (PackErrorBody E (actionText E LogRepair) e pkg, tr)
      | None \<Rightarrow> (PackOkReply E pkg, tr @ [Space (MergeBlobStoreRepair (Data pkg))]))"

definition handleGetDataPartitionMetrics ::
  "extern \<Rightarrow> Packet \<Rightarrow> event list \<Rightarrow> Packet \<times> event list" where
  "handleGetDataPartitionMetrics E pkg tr =
     (let q = Query (MarshalMetrics (PartitionID pkg))
      in (case retErr E tr q of
            Some e \<Rightarrow>
              (PackErrorBody E (actionText E ActionGetDataPartitionMetrics)
                 (Annotatef e (''dataPartionMetrics('' @ Itoa (unat (PartitionID pkg))
                    @ '') json mashal failed'')) pkg, tr @ [q])
          | None \<Rightarrow> (PackOkWithBody E (retBytes E tr q) pkg, tr @ [q])))"

section \<open>Tasks of the master\<close>

text \<open>
  \<open>Request task\<close> is the JSON text of the request embedded in the task
  (\<^verbatim>\<open>json.Marshal(task.Request)\<close>); the report sent to the master is the task with its
  response. A request that is not decoded is the zero value of its type.
\<close>

definition partitionResponse :: "u64 \<Rightarrow> taskStatus \<Rightarrow> string \<Rightarrow> response" where
  "partitionResponse pid st res =
     PartitionResponse \<lparr>RespPartitionId = pid, RespStatus = st, RespResult = res\<rparr>"

definition handleCreateDataPartition ::
  "extern \<Rightarrow> Packet \<Rightarrow> event list \<Rightarrow> Packet \<times> event list" where
  "handleCreateDataPartition E pkg tr =
     (let task = unmarshalAdminTask E (Data pkg);
          pkg1 = PackOkReply E pkg;
          (pid, resp, tr1) =
            (if OpCode task = OpCreateDataPartition then
               (let request = unmarshalCreateRequest E (Request task);
                    ev = Space (CreatePartition (CreateVolumeId request)
                           (ucast (CreatePartitionId request)) (CreatePartitionSize request)
                           (CreatePartitionType request))
                in (case retErr E tr ev of
                      Some e \<Rightarrow>
                        (CreatePartitionId request,
                         partitionResponse (CreatePartitionId request) TaskFail e,
                         tr @ [ev, Log LogErrorf (''from master Task('' @ AdminTaskToString E task
                            @ '') failed,error('' @ e @ '')'')])
                    | None \<Rightarrow>
                        (CreatePartitionId request,
                         partitionResponse (CreatePartitionId request) TaskSuccess [],
                         tr @ [ev])))
             else
               (0, partitionResponse 0 TaskFail ''illegal opcode '',
                tr @ [Log LogErrorf (''from master Task('' @ AdminTaskToString E task
                   @ '') failed,error(illegal opcode )'')]));
          m = Master (MasterRequest (task\<lparr>Response := Some resp\<rparr>))
      in (case retErr E tr1 m of
            Some e \<Rightarrow>
              (pkg1, tr1 @ [m, Log LogError
                 (Annotatef e (''create dataPartition failed,partitionId(''
                    @ Itoa (unat pid) @ '')''))])
          | None \<Rightarrow> (pkg1, tr1 @ [m])))"

definition handleHeartbeats :: "extern \<Rightarrow> Packet \<Rightarrow> event list \<Rightarrow> Packet \<times> event list" where
  "handleHeartbeats E pkg tr =
     (let task = unmarshalAdminTask E (Data pkg);
          pkg1 = PackOkReply E pkg;
          f = Master fillHeartBeatResponse;
          body = retBytes E tr f;
          (addr, resp, tr1) =
            (if OpCode task = OpDataNodeHeartbeat then
               (let request = unmarshalHeartBeatRequest E (Request task)
                in (MasterAddr request, HeartBeatResponse body TaskSuccess [],
                    tr @ [f, Master (AddNode (MasterAddr request))]))
             else ([], HeartBeatResponse body TaskFail ''illegal opcode'', tr @ [f]));
          task1 = task\<lparr>Response := Some resp\<rparr>;
          (data, err) = marshalTask E task1
      in (case err of
            Some e \<Rightarrow> (pkg1, tr1 @ [Log LogErrorf (''action[heartbeat] err('' @ e @ '').'')])
          | None \<Rightarrow>
              (let m = Master (MasterRequest task1)
               in (case retErr E tr1 m of
                     Some e \<Rightarrow>
                       (let a = Annotatef e (''heartbeat to master('' @ addr @ '') failed.'')
                        in (pkg1, tr1 @ [m,
                              Log LogErrorf (''action[handleHeartbeats] err('' @ a @ '').''),
                              Log LogErrorf a]))
                   | None \<Rightarrow>
                       (pkg1, tr1 @ [m, Log LogDebugf
                          (''action[handleHeartbeats] report data len(''
                             @ Itoa (length data) @ '') to master success.'')])))))"

definition handleDeleteDataPartition ::
  "extern \<Rightarrow> Packet \<Rightarrow> event list \<Rightarrow> Packet \<times> event list" where
  "handleDeleteDataPartition E pkg tr =
     (let task = unmarshalAdminTask E (Data pkg);
          pkg1 = PackOkReply E pkg;
          (pid, resp, tr1) =
            (if OpCode task = OpDeleteDataPartition then
               (let (request, err) = unmarshalDeleteRequest E (Request task)
                in (case err of
                      Some e \<Rightarrow>
                        (DeletePartitionId request,
                         partitionResponse (DeletePartitionId request) TaskFail e,
                         tr @ [Log LogErrorf
                           (''action[handleDeleteDataPartition] from master Task(''
                              @ AdminTaskToString E task @ '') failed, err('' @ e @ '')'')])
                    | None \<Rightarrow>
                        (DeletePartitionId request,
                         partitionResponse (DeletePartitionId request) TaskSuccess [],
                         tr @ [Space (DeletePartition (ucast (DeletePartitionId request)))])))
             else
               (0, partitionResponse 0 TaskFail ''illegal opcode '',
                tr @ [Log LogErrorf (''action[handleDeleteDataPartition] from master Task(''
                   @ AdminTaskToString E task @ '') failed, err(illegal opcode ).'')]));
          m = Master (MasterRequest (task\<lparr>Response := Some resp\<rparr>))
      in (case retErr E tr1 m of
            Some e \<Rightarrow>
              (pkg1, tr1 @ [m, Log LogErrorf
                 (''action[handleDeleteDataPartition] err(''
                    @ Annotatef e (''delete dataPartition failed,partitionId(''
                        @ Itoa (unat pid) @ '')'') @ '').'')])
          | None \<Rightarrow> (pkg1, tr1 @ [m])))"

definition handleLoadDataPartition ::
  "extern \<Rightarrow> Packet \<Rightarrow> event list \<Rightarrow> Packet \<times> event list" where
  "handleLoadDataPartition E pkg tr =
     (let task = unmarshalAdminTask E (Data pkg);
          pkg1 = PackOkReply E pkg;
          (pid, resp, tr1) =
            (if OpCode task = OpLoadDataPartition then
               (let request = unmarshalLoadRequest E (Request task);
                    id = LoadPartitionId request;
                    g = Space (GetPartition (ucast id))
                in if \<not> retBool E tr g then
                     (let res = ''dataPartition('' @ Itoa (unat id) @ '') not found''
                      in (id, partitionResponse id TaskFail res,
                          tr @ [g, Log LogErrorf (''from master Task('' @ AdminTaskToString E task
                             @ '') failed,error('' @ res @ '')'')]))
                   else
                     (let l = Space (LoadPartition (ucast id))
                      in (id, LoadResponse id (retBytes E (tr @ [g]) l), tr @ [g, l])))
             else
               (0, partitionResponse 0 TaskFail ''illegal opcode '',
                tr @ [Log LogErrorf (''from master Task('' @ AdminTaskToString E task
                   @ '') failed,error(illegal opcode )'')]));
          m = Master (MasterRequest (task\<lparr>Response := Some resp\<rparr>))
      in (case retErr E tr1 m of
            Some e \<Rightarrow>
              (pkg1, tr1 @ [m, Log LogError
                 (Annotatef e (''load dataPartition failed,partitionId(''
                    @ Itoa (unat pid) @ '')''))])
          | None \<Rightarrow> (pkg1, tr1 @ [m])))"

section \<open>The dispatcher\<close>

text \<open>
  How a call ends: it returns, it panics, or it never returns; a panic holds the packet and
  the trace as they are when it is raised. The slice expression
  \<^verbatim>\<open>pkg.Data[:resultSize]\<close> panics when \<open>resultSize\<close> is beyond the slice; the capacity of
  \<open>Data\<close> is taken to be its length. The panic is raised inside the deferred function, whose
  remaining statements are then not run.
\<close>

datatype 'a outcome = Returns 'a | Panics 'a | NoReturn

text \<open>The switch on the opcode in \<^verbatim>\<open>operatePacket\<close>.\<close>

definition switchOpcode ::
  "extern \<Rightarrow> dataPartition \<Rightarrow> Packet \<Rightarrow> conn \<Rightarrow> event list \<Rightarrow> (Packet \<times> event list) option"
  where
  "switchOpcode E dp pkg c tr =
     (case Opcode pkg of
        OpCreateFile \<Rightarrow> Some (handleCreateFile E dp pkg tr)
      | OpWrite \<Rightarrow> Some (handleWrite E dp pkg tr)
      | OpRead \<Rightarrow> Some (handleRead E pkg tr)
      | OpBlobFileRepairRead \<Rightarrow> Some (handleBlobFileRepairRead E pkg c tr)
      | OpStreamRead \<Rightarrow> handleStreamRead E pkg c tr
      | OpMarkDelete \<Rightarrow> Some (handleMarkDelete E pkg tr)
      | OpNotifyCompactBlobFile \<Rightarrow> Some (handleNotifyCompact E pkg tr)
      | OpNotifyExtentRepair \<Rightarrow> Some (handleNotifyExtentRepair E pkg tr)
      | OpNotifyBlobRepair \<Rightarrow> Some (handleNotifyBlobRepair E pkg tr)
      | OpGetWatermark \<Rightarrow> Some (handleGetWatermark E pkg tr)
      | OpExtentStoreGetAllWaterMark \<Rightarrow> Some (handleExtentStoreGetAllWatermark E pkg tr)
      | OpBlobStoreGetAllWaterMark \<Rightarrow> Some (handleBlobStoreGetAllWatermark E pkg tr)
      | OpCreateDataPartition \<Rightarrow> Some (handleCreateDataPartition E pkg tr)
      | OpLoadDataPartition \<Rightarrow> Some (handleLoadDataPartition E pkg tr)
      | OpDeleteDataPartition \<Rightarrow> Some (handleDeleteDataPartition E pkg tr)
      | OpDataNodeHeartbeat \<Rightarrow> Some (handleHeartbeats E pkg tr)
      | OpGetDataPartitionMetrics \<Rightarrow> Some (handleGetDataPartitionMetrics E pkg tr)
      | OpOther v \<Rightarrow>
          Some (PackErrorBody E ErrorUnknownOp (ErrorUnknownOp @ Itoa (unat v)) pkg, tr))"

definition logLevel :: "opcode \<Rightarrow> level" where
  "logLevel op =
     (if op = OpStreamRead \<or> op = OpRead then LogReadL
      else if op = OpWrite then LogWriteL else LogInfo)"

definition operatePacket ::
  "extern \<Rightarrow> dataPartition \<Rightarrow> Packet \<Rightarrow> conn \<Rightarrow> event list \<Rightarrow> (Packet \<times> event list) outcome"
  where
  "operatePacket E dp pkg c tr =
     (let orgSize = Size pkg;
          umpKey = clusterId E @ ''_datanode_'' @ GetOpMsg E pkg;
          tr0 = tr @ [Ump (BeforeTP umpKey)];
          start = now E tr0
      in (case switchOpcode E dp pkg c tr0 of
            None \<Rightarrow> NoReturn
          | Some (pkg1, tr1) \<Rightarrow>
              (let resultSize = Size pkg1;
                   pkg2 = pkg1\<lparr>Size := orgSize\<rparr>
               in if IsErrPack E pkg2 then
                    (if unat resultSize \<le> length (Data pkg2) then
                       (let err = ''op('' @ GetOpMsg E pkg2 @ '') error(''
                              @ string_of_bytes (take (unat resultSize) (Data pkg2)) @ '')'';
                            tr2 = tr1 @ [Log LogErrorf (''action[operatePacket] '' @ err)];
                            pkg3 = pkg2\<lparr>Size := resultSize\<rparr>
                        in Returns (pkg3, tr2 @ [Ump (AfterTP umpKey (Some err))]))
                     else Panics (pkg2, tr1))
                  else
                    (let logContent = ''action[operatePacket] ''
                           @ ActionMsg E pkg2 (GetOpMsg E pkg2) (RemoteAddr c) start None @ ''.'';
                         tr2 = tr1 @ [Log (logLevel (Opcode pkg2)) logContent];
                         pkg3 = pkg2\<lparr>Size := resultSize\<rparr>
                     in Returns (pkg3, tr2 @ [Ump (AfterTP umpKey None)])))))"

section \<open>A concrete node\<close>

text \<open>
  A packet, three partitions and a set of collaborators on which the handlers can be run:
  every call succeeds, the pool hands out zeroed buffers, a read fills its buffer with ones,
  an error reply holds the action, an underscore and the message, and an error packet is one
  whose result code is not \<open>OpOk\<close>.
\<close>

definition pkt0 :: Packet where
  "pkt0 = \<lparr>Opcode = OpWrite, StoreMode = ExtentStoreMode, PartitionID = 3, FileID = 7,
            Offset = 0, Size = 8, Data = [0, 0, 0, 0, 0, 0, 1, 2], Crc = 0,
            ResultCode = OtherResult 0, StartT = 0\<rparr>"

definition E0 :: extern where
  "E0 = \<lparr>retErr = (\<lambda>tr ev. None),
          retBytes = (\<lambda>tr ev. case ev of BuffersGet n \<Rightarrow> replicate n 0
                                | Store (ExtentRead f off k b) \<Rightarrow> map (\<lambda>x. 1) b
                                | Store (BlobRead f off k b) \<Rightarrow> map (\<lambda>x. 1) b
                                | _ \<Rightarrow> []),
          retCrc = (\<lambda>tr ev. 0),
          retOid = (\<lambda>tr ev. 5), retBool = (\<lambda>tr ev. False),
          retPacket = (\<lambda>tr ev. pkt0), now = (\<lambda>tr. 0),
          clusterId = ''c'', BlockSize = 8, ReadBlockSize = 2,
          actionText = (\<lambda>a. ''act''), errorText = (\<lambda>e. ''err''),
          PackErrorBody = (\<lambda>a m p. p\<lparr>ResultCode := OtherResult 1,
             Size := word_of_nat (length (a @ ''_'' @ m)),
             Data := bytes_of_string (a @ ''_'' @ m)\<rparr>),
          PackOkReply = (\<lambda>p. p\<lparr>ResultCode := OpOk, Size := 0, Data := []\<rparr>),
          PackOkReadReply = (\<lambda>p. p\<lparr>ResultCode := OpOk\<rparr>),
          PackOkWithBody = (\<lambda>b p. p\<lparr>ResultCode := OpOk, Size := word_of_nat (length b),
             Data := b\<rparr>),
          IsErrPack = (\<lambda>p. ResultCode p \<noteq> OpOk),
          GetOpMsg = (\<lambda>p. ''op''), GetUniqueLogId = (\<lambda>p. ''id''),
          ActionMsg = (\<lambda>p a r s e. a),
          unmarshalRepairTask = (\<lambda>b. Inr \<lparr>BlobFileId = 1, StartObj = 2, EndObj = 5\<rparr>),
          RepairTaskToString = (\<lambda>t. ''task''),
          unmarshalAdminTask = (\<lambda>b. \<lparr>OpCode = OpDeleteDataPartition, Request = b,
             Response = None\<rparr>),
          AdminTaskToString = (\<lambda>t. ''admin''),
          unmarshalCreateRequest = (\<lambda>b. \<lparr>CreateVolumeId = ''v'', CreatePartitionId = 9,
             CreatePartitionSize = 1, CreatePartitionType = ''extent''\<rparr>),
          unmarshalDeleteRequest = (\<lambda>b. (\<lparr>DeletePartitionId = 9\<rparr>, None)),
          unmarshalLoadRequest = (\<lambda>b. \<lparr>LoadPartitionId = 9\<rparr>),
          unmarshalHeartBeatRequest = (\<lambda>b. \<lparr>MasterAddr = ''m''\<rparr>),
          unmarshalMembers = (\<lambda>b. None),
          marshalTask = (\<lambda>t. ([], None)),
          CompactTaskToString = (\<lambda>p b l. ''compact'')\<rparr>"

definition rwPartition :: dataPartition where
  "rwPartition = \<lparr>Status = OtherStatus 2, Available = 100\<rparr>"

definition roPartition :: dataPartition where
  "roPartition = \<lparr>Status = ReadOnly, Available = 100\<rparr>"

definition fullPartition :: dataPartition where
  "fullPartition = \<lparr>Status = OtherStatus 2, Available = 0\<rparr>"

text \<open>The connection refuses every frame.\<close>

definition EwriteFails :: extern where
  "EwriteFails = E0\<lparr>retErr := (\<lambda>tr ev. case ev of WriteToConn p c \<Rightarrow> Some ''broken pipe''
                                        | _ \<Rightarrow> None)\<rparr>"

text \<open>The store refuses every call and the connection refuses every frame.\<close>

definition EreadFails :: extern where
  "EreadFails = E0\<lparr>retErr := (\<lambda>tr ev. case ev of WriteToConn p c \<Rightarrow> Some ''broken pipe''
                                       | Store st \<Rightarrow> Some ''io error'' | _ \<Rightarrow> None)\<rparr>"

text \<open>The requester asks for objects up to 6, one more than the last object stored.\<close>

definition EshortOid :: extern where
  "EshortOid = E0\<lparr>unmarshalRepairTask :=
     (\<lambda>b. Inr \<lparr>BlobFileId = 1, StartObj = 2, EndObj = 6\<rparr>)\<rparr>"




definition conn0 :: conn where
  "conn0 = Conn ''peer''"

section \<open>Reading a trace\<close>

text \<open>The recordings into the disk error counters.\<close>

fun isRecording :: "event \<Rightarrow> bool" where
  "isRecording (addDiskErrs p e f) = True"
| "isRecording ev = False"

definition recordings :: "event list \<Rightarrow> event list" where
  "recordings tr = filter isRecording tr"

text \<open>The extent reads (offset and size) and the frames (size) of a trace, in order.\<close>

fun readOf :: "event \<Rightarrow> (i64 \<times> nat) option" where
  "readOf (Store (ExtentRead f off n b)) = Some (off, unat n)"
| "readOf ev = None"

fun frameOf :: "event \<Rightarrow> nat option" where
  "frameOf (WriteToConn p c) = Some (unat (Size p))"
| "frameOf ev = None"

definition reads :: "event list \<Rightarrow> (i64 \<times> nat) list" where
  "reads tr = List.map_filter readOf tr"

definition frames :: "event list \<Rightarrow> nat list" where
  "frames tr = List.map_filter frameOf tr"

fun isGet :: "event \<Rightarrow> bool" where
  "isGet (BuffersGet n) = True"
| "isGet ev = False"

fun isPut :: "event \<Rightarrow> bool" where
  "isPut (BuffersPut d) = True"
| "isPut ev = False"

fun isClose :: "event \<Rightarrow> bool" where
  "isClose (ConnClose c) = True"
| "isClose ev = False"


text \<open>
  The chunks of a transfer of \<open>remaining\<close> bytes from \<open>offset\<close> with chunks of at most
  \<open>maxChunk\<close> bytes, as the specification words them: while \<open>remaining > 0\<close>, the chunk is
  \<open>min remaining maxChunk\<close>, then \<open>offset += chunk\<close> and \<open>remaining -= chunk\<close>.
\<close>

function chunks :: "i64 \<Rightarrow> nat \<Rightarrow> nat \<Rightarrow> (i64 \<times> nat) list" where
  "chunks offset remaining maxChunk =
     (if remaining = 0 \<or> maxChunk = 0 then []
      else (offset, min remaining maxChunk)
           # chunks (offset + of_nat (min remaining maxChunk))
               (remaining - min remaining maxChunk) maxChunk)"
  by pat_completeness auto
termination
  by (relation "measure (\<lambda>(offset, remaining, maxChunk). remaining)") auto

declare chunks.simps [simp del]

text \<open>
  The calls whose error ends the handler that makes them: an extent read, an extent write
  and the writing of a frame. \<open>failures E h tr\<close> are those calls of \<open>tr\<close> that return an
  error, \<open>h\<close> being the trace before \<open>tr\<close>.
\<close>

fun isTransfer :: "event \<Rightarrow> bool" where
  "isTransfer (WriteToConn p c) = True"
| "isTransfer (Store (ExtentRead f off n b)) = True"
| "isTransfer (Store (ExtentWrite f off n d crc)) = True"
| "isTransfer ev = False"

fun failures :: "extern \<Rightarrow> event list \<Rightarrow> event list \<Rightarrow> event list" where
  "failures E h [] = []"
| "failures E h (ev # tr) =
     (if isTransfer ev \<and> retErr E h ev \<noteq> None then [ev] else []) @ failures E (h @ [ev]) tr"

text \<open>
  The discipline of the buffer pool along a trace. A buffer is out of the pool (\<open>Held\<close>)
  from its checkout. It is consumed (\<open>Sent\<close>) when the frame that carries it is written to
  the connection, or the block to the extent store, and the call returns no error; it may
  go back to the pool only then, and only the buffer that was consumed; after that no
  buffer is out (\<open>Idle\<close>). When an extent read, an extent write or the writing of a frame
  returns an error, the buffer that is out is lost to the pool (\<open>Lost\<close>; \<open>Stopped\<close> when
  no buffer is out), and from then on nothing is taken from the pool or given back.
  \<open>None\<close>: the discipline is broken (a return with no buffer out, before the buffer is
  consumed, after a failed call, or of another buffer; a checkout while a buffer is out or
  after a failed call).
\<close>

datatype pool = Idle | Held | Sent bytes | Lost | Stopped

fun failed :: "pool \<Rightarrow> pool" where
  "failed Idle = Stopped"
| "failed Stopped = Stopped"
| "failed st = Lost"

fun consumed :: "pool \<Rightarrow> bytes \<Rightarrow> pool" where
  "consumed Held d = Sent d"
| "consumed st d = st"

text \<open>\<open>poolStep err st ev\<close>: the state after the call \<open>ev\<close> that returned \<open>err\<close>.\<close>

fun poolStep :: "error \<Rightarrow> pool \<Rightarrow> event \<Rightarrow> pool option" where
  "poolStep err Idle (BuffersGet n) = Some Held"
| "poolStep err st (BuffersGet n) = None"
| "poolStep err (Sent d) (BuffersPut d') = (if d = d' then Some Idle else None)"
| "poolStep err st (BuffersPut d') = None"
| "poolStep err st (WriteToConn p c) =
     Some (if err = None then consumed st (Data p) else failed st)"
| "poolStep err st (Store (ExtentWrite f off n d crc)) =
     Some (if err = None then consumed st d else failed st)"
| "poolStep err st (Store (ExtentRead f off n b)) =
     Some (if err = None then st else failed st)"
| "poolStep err st ev = Some st"

fun poolRun :: "extern \<Rightarrow> event list \<Rightarrow> pool \<Rightarrow> event list \<Rightarrow> pool option" where
  "poolRun E h st [] = Some st"
| "poolRun E h st (ev # tr) =
     (case poolStep (retErr E h ev) st ev of
        None \<Rightarrow> None
      | Some st' \<Rightarrow> poolRun E (h @ [ev]) st' tr)"

section \<open>Store-mode routing of CreateFile\<close>

lemma BigEndian_payload:
  "8 \<le> length (payload pkg) \<Longrightarrow> BigEndian_Uint64 (payload pkg) = BigEndian_Uint64 (Data pkg)"
  by (simp add: BigEndian_Uint64_def payload_def min_def split: if_splits)

lemma payload_ge8: "(8 \<le> length (payload pkg)) = (8 \<le> length (Data pkg) \<and> 8 \<le> Size pkg)"
  by (auto simp: payload_def word_le_nat_alt)

lemma be_step1:
  fixes acc :: u64 and x :: u8
  shows "push_bit 8 acc + (ucast x :: u64) = push_bit 8 acc OR ucast x"
  by (rule disjunctive_add) (auto simp: bit_push_bit_iff bit_ucast_iff dest: bit_imp_le_length)

lemma ucast_u8: "unat (ucast (x :: u8) :: u64) = unat x"
proof -
  have "unat x < 2 ^ 64" using unsigned_less [of x, where 'a = nat] by simp
  moreover have "(ucast x :: u64) = of_nat (unat x)" by simp
  ultimately show ?thesis by (simp only: unat_of_nat) simp
qed

lemma be_step:
  fixes acc :: u64 and x :: u8
  assumes "unat acc < 2 ^ 56"
  shows "unat (push_bit 8 acc OR ucast x) = 256 * unat acc + unat x"
proof -
  have x: "unat x < 256" using unsigned_less [of x, where 'a = nat] by simp
  have "unat (push_bit 8 acc OR (ucast x :: u64)) = unat (push_bit 8 acc + (ucast x :: u64))"
    by (simp only: be_step1)
  also have "\<dots> = unat (acc * 256 + (ucast x :: u64))"
    by (simp add: push_bit_eq_mult)
  also have "\<dots> = (unat acc * 256 + unat (ucast x :: u64)) mod 2 ^ 64"
    by (simp add: unat_word_ariths mod_simps)
  also have "\<dots> = (unat acc * 256 + unat x) mod 2 ^ 64"
    by (simp only: ucast_u8)
  also have "\<dots> = unat acc * 256 + unat x"
    using assms x by simp
  finally show ?thesis by simp
qed

lemma be_fold:
  "length b \<le> 8 \<Longrightarrow>
     unat (foldl (\<lambda>acc x. push_bit 8 acc OR ucast x) (0 :: u64) b) = beNat b
     \<and> beNat b < 256 ^ length b"
proof (induction b rule: rev_induct)
  case Nil
  show ?case by (simp add: beNat_def)
next
  case (snoc x xs)
  let ?w = "foldl (\<lambda>acc x. push_bit 8 acc OR ucast x) (0 :: u64) xs"
  from snoc have ih: "unat ?w = beNat xs" "beNat xs < 256 ^ length xs" and len: "length xs \<le> 7"
    by simp_all
  have "(256 :: nat) ^ length xs \<le> 256 ^ 7" using len by (intro power_increasing) simp_all
  with ih have small: "unat ?w < 2 ^ 56" by simp
  have x: "unat x < 256" using unsigned_less [of x, where 'a = nat] by simp
  have v: "unat (push_bit 8 ?w OR ucast x) = 256 * beNat xs + unat x"
    using be_step [OF small, of x] ih(1) by simp
  have "256 * beNat xs + unat x < 256 * 256 ^ length xs"
  proof -
    have "Suc (beNat xs) \<le> 256 ^ length xs" using ih(2) by simp
    then have "256 * Suc (beNat xs) \<le> 256 * 256 ^ length xs" by (rule mult_le_mono2)
    with x show ?thesis by simp
  qed
  with v show ?case by (simp add: beNat_def)
qed

lemma BigEndian_Uint64_value: "unat (BigEndian_Uint64 b) = beNat (take 8 b)"
  using be_fold [of "take 8 b"] by (simp add: BigEndian_Uint64_def)

text \<open>
  C8. A CreateFile request that passes admission fails with the StoreTypeMismatch error on a
  Blob partition, whatever the payload; on an Extent partition the extent is created with
  the inode read big-endian from the first 8 bytes of the payload when the payload has at
  least 8 bytes, and with inode 0 otherwise.
\<close>

theorem C8_create_file_store_mode:
  assumes "Status dp \<noteq> ReadOnly" and "0 < Available dp"
  shows "(StoreMode pkg = BlobStoreMode \<longrightarrow>
           handleCreateFile E dp pkg tr =
             (PackErrorBody E (actionText E LogCreateFile)
                (Annotatef
                   (Annotatef (errorText E ErrStoreTypeMismatch)
                      '' CreateFile only support ExtentMode DataPartition'')
                   (''Request('' @ GetUniqueLogId E pkg @ '') CreateFile Error'')) pkg, tr))
       \<and> (StoreMode pkg = ExtentStoreMode \<longrightarrow>
           snd (handleCreateFile E dp pkg tr) =
             tr @ [Store (ExtentCreate (FileID pkg)
                     (if 8 \<le> length (payload pkg) then BigEndian_Uint64 (payload pkg) else 0)
                     False)])
       \<and> unat (BigEndian_Uint64 (payload pkg)) = beNat (take 8 (payload pkg))"
  using assms
  by (simp add: handleCreateFile_def deferReply_def Let_def payload_ge8 BigEndian_payload
        BigEndian_Uint64_value)

theorem C8_witness:
  "Status rwPartition \<noteq> ReadOnly \<and> 0 < Available rwPartition
   \<and> handleCreateFile E0 rwPartition (pkt0\<lparr>StoreMode := BlobStoreMode\<rparr>) [] =
     (PackErrorBody E0 ''act''
        ''Request(id) CreateFile Error:  CreateFile only support ExtentMode DataPartition: err''
        (pkt0\<lparr>StoreMode := BlobStoreMode\<rparr>), [])
   \<and> snd (handleCreateFile E0 rwPartition pkt0 []) = [Store (ExtentCreate 7 258 False)]
   \<and> snd (handleCreateFile E0 rwPartition (pkt0\<lparr>Size := 7\<rparr>) []) =
       [Store (ExtentCreate 7 0 False)]
   \<and> unat (BigEndian_Uint64 (payload pkt0)) = 258"
  using C8_create_file_store_mode [of rwPartition "pkt0\<lparr>StoreMode := BlobStoreMode\<rparr>" E0 "[]"]
    C8_create_file_store_mode [of rwPartition pkt0 E0 "[]"]
    C8_create_file_store_mode [of rwPartition "pkt0\<lparr>Size := 7\<rparr>" E0 "[]"]
  by (simp add: rwPartition_def pkt0_def E0_def Annotatef_def payload_def BigEndian_Uint64_def
        beNat_def)

section \<open>Requests in a store mode that is neither Blob nor Extent\<close>

text \<open>
  C10. A Write request that passes admission and a MarkDelete request, in a store mode that
  is neither Blob nor Extent, call no store, record nothing in the disk error counter (the
  trace is unchanged) and reply Ok.
\<close>

theorem C10_store_mode_fall_through:
  assumes "StoreMode pkg \<noteq> BlobStoreMode" and "StoreMode pkg \<noteq> ExtentStoreMode"
  shows "(Status dp \<noteq> ReadOnly \<and> 0 < Available dp \<longrightarrow>
            handleWrite E dp pkg tr = (PackOkReply E pkg, tr))
       \<and> handleMarkDelete E pkg tr = (PackOkReply E pkg, tr)"
  using assms
  by (cases "StoreMode pkg") (simp_all add: handleWrite_def handleMarkDelete_def deferReply_def)

theorem C10_witness:
  "StoreMode (pkt0\<lparr>StoreMode := OtherStoreMode 9\<rparr>) \<noteq> BlobStoreMode
   \<and> StoreMode (pkt0\<lparr>StoreMode := OtherStoreMode 9\<rparr>) \<noteq> ExtentStoreMode
   \<and> Status rwPartition \<noteq> ReadOnly \<and> 0 < Available rwPartition
   \<and> handleWrite E0 rwPartition (pkt0\<lparr>StoreMode := OtherStoreMode 9\<rparr>) [] =
     (pkt0\<lparr>StoreMode := OtherStoreMode 9, ResultCode := OpOk, Size := 0, Data := []\<rparr>, [])
   \<and> handleMarkDelete E0 (pkt0\<lparr>StoreMode := OtherStoreMode 9\<rparr>) [] =
     (pkt0\<lparr>StoreMode := OtherStoreMode 9, ResultCode := OpOk, Size := 0, Data := []\<rparr>, [])"
  using C10_store_mode_fall_through [of "pkt0\<lparr>StoreMode := OtherStoreMode 9\<rparr>" rwPartition E0 "[]"]
  by (simp add: rwPartition_def pkt0_def E0_def)

section \<open>Admission of Create and Write\<close>

text \<open>
  C2. On a read-only partition Create and Write fail with the PartitionReadOnly error; on a
  partition that is not read-only and has no capacity left they fail with the NoSpace
  error; in both cases no store is called (the trace is unchanged). Read, MarkDelete and the
  watermark queries make neither check: what the dispatcher does for them is the same
  whatever the status and the capacity of the partition, and on an Extent partition the
  store is called.
\<close>

theorem C2_admission:
  "(Status dp = ReadOnly \<longrightarrow>
      handleCreateFile E dp pkg tr =
        (PackErrorBody E (actionText E LogCreateFile)
           (Annotatef (errorText E ErrorPartitionReadOnly)
              (''Request('' @ GetUniqueLogId E pkg @ '') CreateFile Error'')) pkg, tr)
      \<and> handleWrite E dp pkg tr =
        (PackErrorBody E (actionText E LogWrite)
           (Annotatef (errorText E ErrorPartitionReadOnly)
              (''Request('' @ GetUniqueLogId E pkg @ '') Write Error'')) pkg, tr))
   \<and> (Status dp \<noteq> ReadOnly \<and> Available dp \<le> 0 \<longrightarrow>
      handleCreateFile E dp pkg tr =
        (PackErrorBody E (actionText E LogCreateFile)
           (Annotatef (errorText E ErrSyscallNoSpace)
              (''Request('' @ GetUniqueLogId E pkg @ '') CreateFile Error'')) pkg, tr)
      \<and> handleWrite E dp pkg tr =
        (PackErrorBody E (actionText E LogWrite)
           (Annotatef (errorText E ErrSyscallNoSpace)
              (''Request('' @ GetUniqueLogId E pkg @ '') Write Error'')) pkg, tr))
   \<and> (Opcode pkg \<in> {OpRead, OpMarkDelete, OpGetWatermark, OpExtentStoreGetAllWaterMark,
                      OpBlobStoreGetAllWaterMark} \<longrightarrow>
      operatePacket E dp pkg c tr = operatePacket E dp' pkg c tr)
   \<and> (StoreMode pkg = ExtentStoreMode \<longrightarrow>
      snd (handleRead E pkg tr) =
        tr @ [Store (ExtentRead (FileID pkg) (Offset pkg) (ucast (Size pkg))
                (replicate (unat (Size pkg)) 0)),
              addDiskErrs (PartitionID pkg)
                (retErr E tr (Store (ExtentRead (FileID pkg) (Offset pkg) (ucast (Size pkg))
                   (replicate (unat (Size pkg)) 0)))) ReadFlag]
      \<and> snd (handleMarkDelete E pkg tr) = tr @ [Store (ExtentMarkDelete (FileID pkg))]
      \<and> snd (handleGetWatermark E pkg tr) = tr @ [Query (ExtentGetWatermark (FileID pkg) False)])"
proof -
  have a: "Status dp = ReadOnly \<longrightarrow>
      handleCreateFile E dp pkg tr =
        (PackErrorBody E (actionText E LogCreateFile)
           (Annotatef (errorText E ErrorPartitionReadOnly)
              (''Request('' @ GetUniqueLogId E pkg @ '') CreateFile Error'')) pkg, tr)
      \<and> handleWrite E dp pkg tr =
        (PackErrorBody E (actionText E LogWrite)
           (Annotatef (errorText E ErrorPartitionReadOnly)
              (''Request('' @ GetUniqueLogId E pkg @ '') Write Error'')) pkg, tr)"
    by (simp add: handleCreateFile_def handleWrite_def deferReply_def)
  have b: "Status dp \<noteq> ReadOnly \<and> Available dp \<le> 0 \<longrightarrow>
      handleCreateFile E dp pkg tr =
        (PackErrorBody E (actionText E LogCreateFile)
           (Annotatef (errorText E ErrSyscallNoSpace)
              (''Request('' @ GetUniqueLogId E pkg @ '') CreateFile Error'')) pkg, tr)
      \<and> handleWrite E dp pkg tr =
        (PackErrorBody E (actionText E LogWrite)
           (Annotatef (errorText E ErrSyscallNoSpace)
              (''Request('' @ GetUniqueLogId E pkg @ '') Write Error'')) pkg, tr)"
    by (simp add: handleCreateFile_def handleWrite_def deferReply_def)
  have c: "Opcode pkg \<in> {OpRead, OpMarkDelete, OpGetWatermark, OpExtentStoreGetAllWaterMark,
                      OpBlobStoreGetAllWaterMark} \<longrightarrow>
      operatePacket E dp pkg c tr = operatePacket E dp' pkg c tr"
    by (auto simp: operatePacket_def switchOpcode_def)
  have d: "StoreMode pkg = ExtentStoreMode \<longrightarrow>
      snd (handleRead E pkg tr) =
        tr @ [Store (ExtentRead (FileID pkg) (Offset pkg) (ucast (Size pkg))
                (replicate (unat (Size pkg)) 0)),
              addDiskErrs (PartitionID pkg)
                (retErr E tr (Store (ExtentRead (FileID pkg) (Offset pkg) (ucast (Size pkg))
                   (replicate (unat (Size pkg)) 0)))) ReadFlag]
      \<and> snd (handleMarkDelete E pkg tr) = tr @ [Store (ExtentMarkDelete (FileID pkg))]
      \<and> snd (handleGetWatermark E pkg tr) = tr @ [Query (ExtentGetWatermark (FileID pkg) False)]"
    by (simp add: handleRead_def handleMarkDelete_def handleGetWatermark_def Let_def
          split: option.splits)
  from a b c d show ?thesis by blast
qed

theorem C2_witness:
  "Status roPartition = ReadOnly
   \<and> fst (handleCreateFile E0 roPartition pkt0 []) =
       PackErrorBody E0 ''act'' ''Request(id) CreateFile Error: err'' pkt0
   \<and> snd (handleWrite E0 roPartition pkt0 []) = []
   \<and> Status fullPartition \<noteq> ReadOnly \<and> Available fullPartition \<le> 0
   \<and> fst (handleWrite E0 fullPartition pkt0 []) =
       PackErrorBody E0 ''act'' ''Request(id) Write Error: err'' pkt0
   \<and> snd (handleCreateFile E0 fullPartition pkt0 []) = []
   \<and> Opcode (pkt0\<lparr>Opcode := OpRead\<rparr>) \<in> {OpRead, OpMarkDelete, OpGetWatermark,
         OpExtentStoreGetAllWaterMark, OpBlobStoreGetAllWaterMark}
   \<and> operatePacket E0 roPartition (pkt0\<lparr>Opcode := OpRead\<rparr>) conn0 [] =
       operatePacket E0 rwPartition (pkt0\<lparr>Opcode := OpRead\<rparr>) conn0 []
   \<and> StoreMode pkt0 = ExtentStoreMode
   \<and> snd (handleMarkDelete E0 pkt0 []) = [Store (ExtentMarkDelete 7)]"
  using C2_admission [of roPartition E0 pkt0 "[]" conn0 rwPartition]
    C2_admission [of fullPartition E0 pkt0 "[]" conn0 rwPartition]
    C2_admission [of roPartition E0 "pkt0\<lparr>Opcode := OpRead\<rparr>" "[]" conn0 rwPartition]
  by (simp add: roPartition_def fullPartition_def pkt0_def E0_def Annotatef_def)

section \<open>Recording the outcome of a write\<close>

text \<open>
  C7 (as amended). A Write request that passes admission on a Blob or an Extent partition
  records the outcome of the store write, success or error, exactly once in the disk error
  counter of its partition, with the write flag. A Write request that admission rejects
  (read-only partition, no space left), or whose store mode is neither Blob nor Extent,
  calls nothing and records nothing.
\<close>

theorem C7_write_recording:
  "(Status dp \<noteq> ReadOnly \<and> 0 < Available dp \<and> StoreMode pkg = BlobStoreMode \<longrightarrow>
      recordings (snd (handleWrite E dp pkg tr)) =
        recordings tr @ [addDiskErrs (PartitionID pkg)
          (retErr E tr (Store (BlobWrite (ucast (FileID pkg)) (Offset pkg) (ucast (Size pkg))
             (Data pkg) (Crc pkg)))) WriteFlag])
   \<and> (Status dp \<noteq> ReadOnly \<and> 0 < Available dp \<and> StoreMode pkg = ExtentStoreMode \<longrightarrow>
      recordings (snd (handleWrite E dp pkg tr)) =
        recordings tr @ [addDiskErrs (PartitionID pkg)
          (retErr E tr (Store (ExtentWrite (FileID pkg) (Offset pkg) (ucast (Size pkg))
             (Data pkg) (Crc pkg)))) WriteFlag])
   \<and> (Status dp = ReadOnly \<or> Available dp \<le> 0
        \<or> (StoreMode pkg \<noteq> BlobStoreMode \<and> StoreMode pkg \<noteq> ExtentStoreMode) \<longrightarrow>
      snd (handleWrite E dp pkg tr) = tr)"
  by (cases "StoreMode pkg")
     (auto simp: handleWrite_def Let_def recordings_def)

theorem C7_witness:
  "Status rwPartition \<noteq> ReadOnly \<and> 0 < Available rwPartition
   \<and> StoreMode pkt0 = ExtentStoreMode
   \<and> recordings (snd (handleWrite E0 rwPartition pkt0 [])) = [addDiskErrs 3 None WriteFlag]
   \<and> recordings (snd (handleWrite EreadFails rwPartition pkt0 [])) =
        [addDiskErrs 3 (Some ''io error'') WriteFlag]
   \<and> recordings (snd (handleWrite E0 rwPartition (pkt0\<lparr>StoreMode := BlobStoreMode\<rparr>) [])) =
        [addDiskErrs 3 None WriteFlag]
   \<and> Status roPartition = ReadOnly \<and> snd (handleWrite E0 roPartition pkt0 []) = []
   \<and> Available fullPartition \<le> 0 \<and> snd (handleWrite E0 fullPartition pkt0 []) = []"
  using C7_write_recording [of rwPartition pkt0 E0 "[]"]
    C7_write_recording [of rwPartition pkt0 EreadFails "[]"]
    C7_write_recording [of rwPartition "pkt0\<lparr>StoreMode := BlobStoreMode\<rparr>" E0 "[]"]
    C7_write_recording [of roPartition pkt0 E0 "[]"]
    C7_write_recording [of fullPartition pkt0 E0 "[]"]
  by (simp add: rwPartition_def roPartition_def fullPartition_def pkt0_def E0_def EreadFails_def
        recordings_def)

text \<open>
  A Write request on a read-only partition is such a request and leaves no recording: the
  claim that every Write request produces exactly one recording fails there.
\<close>

theorem C7_counterexample:
  "Opcode pkt0 = OpWrite \<and> Status roPartition = ReadOnly
   \<and> recordings (snd (handleWrite E0 roPartition pkt0 [])) = []
   \<and> length (recordings (snd (handleWrite E0 roPartition pkt0 []))) \<noteq> 1"
  by (simp add: handleWrite_def roPartition_def recordings_def pkt0_def)

section \<open>The handshake of the blob file repair read\<close>

lemma Itoa_digit: "n < 10 \<Longrightarrow> Itoa n = [digit n]"
  by (simp add: Itoa.simps)

lemma annotated_includes:
  "sublist x (Annotatef (a @ x @ b) m)" "sublist y (Annotatef (a @ x @ b @ y @ d) m)"
  unfolding Annotatef_def sublist_def
  by (metis append.assoc)+

text \<open>
  C1. For a repair-read request whose payload decodes to a task, let \<open>localOid\<close> be the
  object id that \<^verbatim>\<open>GetLastOid\<close> returns for the blob file of the task. If
  \<open>localOid < EndObj\<close> the handler packs an error reply whose message includes the text of
  the task and \<open>localOid\<close>, and the trace holds the query and a log line only: no transfer.
  If \<open>EndObj \<le> localOid\<close>, the boundary included, the next call is the transfer of the
  objects from \<open>StartObj\<close> to \<open>localOid\<close> on the connection of the request.
\<close>

theorem C1_repair_read_handshake:
  fixes E :: extern and pkg :: Packet and task :: RepairBlobFileTask and tr :: "event list"
  defines "blobfileID \<equiv> (word_of_int (BlobFileId task) :: u32)"
  defines "localOid \<equiv> retOid E tr (Query (GetLastOid blobfileID))"
  defines "seen \<equiv> [Query (GetLastOid blobfileID),
           Log LogWarnf (''Request('' @ GetUniqueLogId E pkg
             @ '') handleBlobFileRepairRead Recive RepairTask('' @ RepairTaskToString E task
             @ '') localOid('' @ Itoa (unat localOid) @ '')'')]"
  defines "msg \<equiv> Annotatef
           ('' handleBlobFileRepairRead Recive RepairTask('' @ RepairTaskToString E task
              @ '') but localOid('' @ Itoa (unat localOid) @ '')'')
           (''Request('' @ GetUniqueLogId E pkg @ '') handleBlobFileRepairRead Error'')"
  assumes "unmarshalRepairTask E (Data pkg) = Inr task"
  shows "(localOid < EndObj task \<longrightarrow>
           handleBlobFileRepairRead E pkg c tr =
             (PackErrorBody E (actionText E ActionFollowerRequireBlobFileRepairCmd) msg pkg,
              tr @ seen)
           \<and> sublist (RepairTaskToString E task) msg \<and> sublist (Itoa (unat localOid)) msg)
       \<and> (EndObj task \<le> localOid \<longrightarrow>
           snd (handleBlobFileRepairRead E pkg c tr) =
             tr @ seen @ [SyncData blobfileID (StartObj task) localOid pkg c])"
proof -
  have inc: "sublist (RepairTaskToString E task) msg \<and> sublist (Itoa (unat localOid)) msg"
    unfolding msg_def using annotated_includes by blast
  show ?thesis
    using assms(5) inc
    by (auto simp: handleBlobFileRepairRead_def Let_def blobfileID_def localOid_def seen_def
          msg_def split: option.splits)
qed

theorem C1_witness:
  "unmarshalRepairTask E0 (Data pkt0) = Inr \<lparr>BlobFileId = 1, StartObj = 2, EndObj = 5\<rparr>
   \<and> unmarshalRepairTask EshortOid (Data pkt0) = Inr \<lparr>BlobFileId = 1, StartObj = 2, EndObj = 6\<rparr>
   \<and> retOid E0 [] (Query (GetLastOid 1)) = 5
   \<and> handleBlobFileRepairRead EshortOid pkt0 conn0 [] =
       (PackErrorBody EshortOid ''act''
          (''Request(id) handleBlobFileRepairRead Error:  handleBlobFileRepairRead Recive ''
            @ ''RepairTask(task) but localOid(5)'') pkt0,
        [Query (GetLastOid 1),
         Log LogWarnf ''Request(id) handleBlobFileRepairRead Recive RepairTask(task) localOid(5)''])
   \<and> snd (handleBlobFileRepairRead E0 pkt0 conn0 []) =
       [Query (GetLastOid 1),
        Log LogWarnf ''Request(id) handleBlobFileRepairRead Recive RepairTask(task) localOid(5)'',
        SyncData 1 2 5 pkt0 conn0]"
  using C1_repair_read_handshake [of EshortOid pkt0 "\<lparr>BlobFileId = 1, StartObj = 2, EndObj = 6\<rparr>"
      "[]" conn0]
    C1_repair_read_handshake [of E0 pkt0 "\<lparr>BlobFileId = 1, StartObj = 2, EndObj = 5\<rparr>"
      "[]" conn0]
  by (simp add: E0_def EshortOid_def Annotatef_def Itoa_digit digit_def)

section \<open>Deleting a partition\<close>

text \<open>
  C9. The reply to the sender of a DeleteDataPartition packet is always Ok. When the task
  holds the delete opcode and its request decodes, the first call of the handler is the
  removal of the partition from the space, with no lookup before it, and the second is the
  report to the master, whose response holds the id of the request, the status
  \<open>TaskSuccess\<close> and an empty result, whatever the space holds and whatever the removal
  did; a log line follows only when the master cannot be reached. The id given to the
  removal is the id of the request cut to 32 bits; the report holds the id as it is.
\<close>

theorem C9_delete_partition:
  fixes E :: extern and pkg :: Packet and tr :: "event list"
  defines "task \<equiv> unmarshalAdminTask E (Data pkg)"
  defines "pid \<equiv> DeletePartitionId (fst (unmarshalDeleteRequest E (Request task)))"
  defines "removal \<equiv> Space (DeletePartition (ucast pid))"
  defines "report \<equiv> Master (MasterRequest
             (task\<lparr>Response := Some (PartitionResponse
                \<lparr>RespPartitionId = pid, RespStatus = TaskSuccess, RespResult = []\<rparr>)\<rparr>))"
  shows "fst (handleDeleteDataPartition E pkg tr) = PackOkReply E pkg
       \<and> (OpCode task = OpDeleteDataPartition
            \<and> snd (unmarshalDeleteRequest E (Request task)) = None \<longrightarrow>
          snd (handleDeleteDataPartition E pkg tr) =
            tr @ [removal, report]
            @ (case retErr E (tr @ [removal]) report of
                 None \<Rightarrow> []
               | Some e \<Rightarrow>
                   [Log LogErrorf (''action[handleDeleteDataPartition] err(''
                      @ Annotatef e (''delete dataPartition failed,partitionId(''
                          @ Itoa (unat pid) @ '')'') @ '').'')]))"
  by (auto simp: handleDeleteDataPartition_def partitionResponse_def Let_def task_def pid_def
        report_def removal_def split: option.splits prod.splits if_splits)

theorem C9_witness:
  "OpCode (unmarshalAdminTask E0 (Data pkt0)) = OpDeleteDataPartition
   \<and> snd (unmarshalDeleteRequest E0 (Request (unmarshalAdminTask E0 (Data pkt0)))) = None
   \<and> \<not> retBool E0 [] (Space (GetPartition 9))
   \<and> handleDeleteDataPartition E0 pkt0 [] =
       (PackOkReply E0 pkt0,
        [Space (DeletePartition 9),
         Master (MasterRequest \<lparr>OpCode = OpDeleteDataPartition, Request = Data pkt0,
           Response = Some (PartitionResponse
             \<lparr>RespPartitionId = 9, RespStatus = TaskSuccess, RespResult = []\<rparr>)\<rparr>)])"
  using C9_delete_partition [of E0 pkt0 "[]"]
  by (simp add: E0_def prod_eq_iff)

section \<open>The size of the packet across the dispatcher\<close>




section \<open>The chunks of a transfer\<close>

lemma chunks_zero: "chunks off 0 C = []"
  by (subst chunks.simps) simp

lemma chunks_step:
  "0 < r \<Longrightarrow> 0 < C \<Longrightarrow>
     chunks off r C = (off, min r C) # chunks (off + of_nat (min r C)) (r - min r C) C"
  by (subst chunks.simps) simp

lemma chunks_last: "0 < r \<Longrightarrow> r \<le> C \<Longrightarrow> chunks off r C = [(off, r)]"
  by (subst chunks.simps) (simp add: min_def chunks_zero)

lemma chunks_full_step:
  "0 < C \<Longrightarrow> C < r \<Longrightarrow> chunks off r C = (off, C) # chunks (off + of_nat C) (r - C) C"
  by (subst chunks.simps) (simp add: min_def)

lemma ceil_small: "0 < (r::nat) \<Longrightarrow> r \<le> C \<Longrightarrow> (r + C - 1) div C = 1"
  by (rule div_nat_eqI) simp_all

lemma ceil_step:
  assumes "0 < (C::nat)" and "C < r"
  shows "(r + C - 1) div C = Suc ((r - C + C - 1) div C)"
proof -
  have "r + C - 1 = (r - 1) + C" using assms by linarith
  moreover have "r - C + C - 1 = r - 1" using assms by linarith
  moreover have "((r - 1) + C) div C = Suc ((r - 1) div C)"
    using assms(1) by (simp only: div_add_self2)
  ultimately show ?thesis by (simp only:)
qed

lemma chunks_length:
  "0 < C \<Longrightarrow> length (chunks off r C) = (r + C - 1) div C"
proof (induction r arbitrary: off rule: less_induct)
  case (less r)
  consider "r = 0" | "0 < r" "r \<le> C" | "C < r" by linarith
  then show ?case
  proof cases
    case 1
    have "(0 + C - 1) div C = 0" using less.prems by simp
    then show ?thesis unfolding 1 chunks_zero by simp
  next
    case 2
    show ?thesis unfolding chunks_last [OF 2] ceil_small [OF 2] by simp
  next
    case 3
    have "r - C < r" using 3 less.prems by simp
    from less.IH [OF this less.prems, of "off + of_nat C"]
    show ?thesis
      unfolding chunks_full_step [OF less.prems 3] ceil_step [OF less.prems 3] by simp
  qed
qed

lemma chunks_sum: "0 < C \<Longrightarrow> sum_list (map snd (chunks off r C)) = r"
proof (induction r arbitrary: off rule: less_induct)
  case (less r)
  consider "r = 0" | "0 < r" "r \<le> C" | "C < r" by linarith
  then show ?case
  proof cases
    case 1
    then show ?thesis by (simp add: chunks_zero)
  next
    case 2
    then show ?thesis by (simp add: chunks_last)
  next
    case 3
    have "r - C < r" using 3 less.prems by simp
    from less.IH [OF this less.prems, of "off + of_nat C"] 3
    show ?thesis by (simp add: chunks_full_step [OF less.prems 3])
  qed
qed

lemma chunks_nth:
  "0 < C \<Longrightarrow> k < length (chunks off r C) \<Longrightarrow>
     chunks off r C ! k = (off + of_nat (k * C), min (r - k * C) C)
     \<and> k * C < r"
proof (induction k arbitrary: off r)
  case 0
  then have r: "0 < r" by (cases "r = 0") (simp_all add: chunks_zero)
  show ?case using r by (simp add: chunks_step [OF r 0(1)])
next
  case (Suc k)
  then have r: "0 < r" by (cases "r = 0") (simp_all add: chunks_zero)
  have "C < r"
  proof (rule ccontr)
    assume "\<not> C < r"
    then have "chunks off r C = [(off, r)]" using r by (simp add: chunks_last)
    with Suc.prems(2) show False by simp
  qed
  note step = chunks_full_step [OF Suc.prems(1) this]
  from Suc.prems(2) have lt: "k < length (chunks (off + of_nat C) (r - C) C)"
    by (simp add: step)
  from Suc.IH [OF Suc.prems(1) lt] \<open>C < r\<close> show ?case
    by (auto simp: step algebra_simps)
qed

lemma chunks_full:
  assumes "0 < C" and "Suc k < length (chunks off r C)"
  shows "snd (chunks off r C ! k) = C"
proof -
  have "Suc k * C < r" using chunks_nth [OF assms] by simp
  then have "C \<le> r - k * C" by simp
  moreover have "k < length (chunks off r C)" using assms(2) by simp
  ultimately show ?thesis using chunks_nth [OF assms(1)] by simp
qed

lemma chunks_prefix_sum:
  "0 < C \<Longrightarrow> k < length (chunks off r C) \<Longrightarrow>
     sum_list (map snd (take k (chunks off r C))) = k * C"
proof (induction k)
  case 0
  then show ?case by simp
next
  case (Suc k)
  then have k: "k < length (chunks off r C)" by simp
  have "take (Suc k) (chunks off r C) = take k (chunks off r C) @ [chunks off r C ! k]"
    using k by (simp add: take_Suc_conv_app_nth)
  with Suc.IH [OF Suc.prems(1) k] chunks_full [OF Suc.prems] show ?case by simp
qed


lemma sint_offset:
  fixes off :: i64
  assumes "sint off + int x < 2 ^ 63"
  shows "sint (off + of_nat x) = sint off + int x"
proof -
  have lo: "- (2 ^ 63) \<le> sint off" using sint_ge [of off] by simp
  have "off + of_nat x = word_of_int (sint off) + word_of_int (int x)"
    by (simp only: of_int_sint of_int_of_nat_eq scast_id)
  then have "off + of_nat x = word_of_int (sint off + int x)" by (simp only: of_int_add)
  then have "sint (off + of_nat x) = signed_take_bit 63 (sint off + int x)"
    by (simp only: sint_sbintrunc') simp
  also have "\<dots> = sint off + int x"
    using lo assms by (intro signed_take_bit_int_eq_self) linarith+
  finally show ?thesis .
qed

section \<open>The loop of the streaming read\<close>

lemma reads_append: "reads (a @ b) = reads a @ reads b"
  by (simp add: reads_def List.map_filter_def)

lemma frames_append: "frames (a @ b) = frames a @ frames b"
  by (simp add: frames_def List.map_filter_def)

lemma poolRun_append:
  "poolRun E h st (a @ b) =
     (case poolRun E h st a of None \<Rightarrow> None | Some st' \<Rightarrow> poolRun E (h @ a) st' b)"
  by (induction a arbitrary: h st) (auto split: option.splits)

lemma failures_append: "failures E h (a @ b) = failures E h a @ failures E (h @ a) b"
  by (induction a arbitrary: h) auto

text \<open>The size of the chunk of one iteration.\<close>

lemma chunk_size:
  fixes n :: u32
  assumes "n \<noteq> 0" and "0 < C"
  defines "m \<equiv> min (unat n) C"
  shows "unat (word_of_nat m :: u32) = m" and "0 < m" and "(word_of_nat m :: u32) \<le> n"
    and "unat (n - word_of_nat m) = unat n - m"
    and "(ucast (word_of_nat m :: u32) :: i64) = of_nat m"
    and "unat (of_nat m :: i64) = m"
proof -
  have le: "m \<le> unat n" by (simp add: m_def)
  show u: "unat (word_of_nat m :: u32) = m" using le by (rule le_unat_uoi)
  show "0 < m" using assms(1,2) by (simp add: m_def unat_gt_0)
  show w: "(word_of_nat m :: u32) \<le> n" using le u by (simp add: word_le_nat_alt)
  show "unat (n - word_of_nat m) = unat n - m" using unat_sub [OF w] u by simp
  show "(ucast (word_of_nat m :: u32) :: i64) = of_nat m"
    using u of_nat_unat [of "word_of_nat m :: u32", where 'a = i64] by simp
  have "m < 2 ^ 32" using le unsigned_less [of n, where 'a = nat] by simp
  then show "unat (of_nat m :: i64) = m" by (simp add: unat_of_nat)
qed

text \<open>One iteration when the read and the write succeed.\<close>

lemma iter_ok:
  fixes n :: u32
  assumes n: "n \<noteq> 0" and C: "0 < ReadBlockSize E"
    and rd: "\<And>h f off k b. retErr E h (Store (ExtentRead f off k b)) = None"
    and wr: "\<And>h p c. retErr E h (WriteToConn p c) = None"
  defines "m \<equiv> min (unat n) (ReadBlockSize E)"
  shows "\<exists>rq' it. streamReadIter E c n off rq tr =
            Continue (n - word_of_nat m) (off + of_nat m) rq' (tr @ it)
          \<and> reads it = [(off, m)] \<and> frames it = [m]
          \<and> poolRun E tr Idle it = Some Idle \<and> failures E tr it = []
          \<and> length (filter isGet it) = (if m = ReadBlockSize E then 1 else 0)
          \<and> length (filter isPut it) = (if m = ReadBlockSize E then 1 else 0)
          \<and> filter isClose it = []"
  using chunk_size [OF n C]
  by (auto simp: streamReadIter_def Let_def rd wr m_def [symmetric] reads_def frames_def
        List.map_filter_simps)

lemma loop_ok:
  fixes n :: u32
  assumes C: "0 < ReadBlockSize E"
    and rd: "\<And>h f off k b. retErr E h (Store (ExtentRead f off k b)) = None"
    and wr: "\<And>h p c. retErr E h (WriteToConn p c) = None"
  shows "\<exists>p t. streamReadLoop E c n off rq tr = Some (p, tr @ t)
          \<and> reads t = chunks off (unat n) (ReadBlockSize E)
          \<and> frames t = map snd (chunks off (unat n) (ReadBlockSize E))
          \<and> poolRun E tr Idle t = Some Idle \<and> failures E tr t = []
          \<and> length (filter isGet t) =
               length (filter (\<lambda>x. snd x = ReadBlockSize E) (chunks off (unat n) (ReadBlockSize E)))
          \<and> length (filter isPut t) = length (filter isGet t)
          \<and> filter isClose t = []"
proof (induction "unat n" arbitrary: n off rq tr rule: less_induct)
  case less
  show ?case
  proof (cases "n = 0")
    case True
    then show ?thesis
      by (subst streamReadLoop.simps) (simp add: chunks_zero reads_def frames_def)
  next
    case False
    define m where "m = min (unat n) (ReadBlockSize E)"
    from iter_ok [OF False C rd wr, of c off rq tr]
    obtain rq' it where it:
      "streamReadIter E c n off rq tr =
         Continue (n - word_of_nat m) (off + of_nat m) rq' (tr @ it)"
      "reads it = [(off, m)]" "frames it = [m]"
      "poolRun E tr Idle it = Some Idle" "failures E tr it = []"
      "length (filter isGet it) = (if m = ReadBlockSize E then 1 else 0)"
      "length (filter isPut it) = (if m = ReadBlockSize E then 1 else 0)"
      "filter isClose it = []"
      unfolding m_def by blast
    have m: "0 < m" "unat (n - word_of_nat m) = unat n - m"
      using chunk_size [OF False C] by (simp_all add: m_def)
    have pos: "0 < unat n" using False by (simp add: unat_gt_0)
    have dec: "unat (n - word_of_nat m) < unat n" using m pos by simp
    from less [OF dec, of "off + of_nat m" rq' "tr @ it"]
    obtain p t where t:
      "streamReadLoop E c (n - word_of_nat m) (off + of_nat m) rq' (tr @ it) = Some (p, (tr @ it) @ t)"
      "reads t = chunks (off + of_nat m) (unat n - m) (ReadBlockSize E)"
      "frames t = map snd (chunks (off + of_nat m) (unat n - m) (ReadBlockSize E))"
      "poolRun E (tr @ it) Idle t = Some Idle" "failures E (tr @ it) t = []"
      "length (filter isGet t) =
         length (filter (\<lambda>x. snd x = ReadBlockSize E)
           (chunks (off + of_nat m) (unat n - m) (ReadBlockSize E)))"
      "length (filter isPut t) = length (filter isGet t)"
      "filter isClose t = []"
      unfolding m(2) by blast
    have ch: "chunks off (unat n) (ReadBlockSize E) =
                (off, m) # chunks (off + of_nat m) (unat n - m) (ReadBlockSize E)"
      using chunks_step [OF pos C, of off] by (simp add: m_def)
    have run: "streamReadLoop E c n off rq tr = Some (p, tr @ (it @ t))"
      by (subst streamReadLoop.simps) (simp add: False it(1) t(1))
    show ?thesis
      apply (rule exI [of _ p], rule exI [of _ "it @ t"])
      using run it t ch
      by (simp add: reads_append frames_append poolRun_append failures_append)
  qed
qed




text \<open>
  C3 (as amended). When the maximal chunk \<open>C\<close> is positive and every extent read and every
  write to the connection succeeds, a StreamRead request of size \<open>S\<close> returns after
  \<open>(S + C - 1) div C\<close> frames; the frames and the reads have the sizes
  \<open>min remaining C\<close>, all \<open>C\<close> but possibly the last, and their sum is \<open>S\<close>; the offset
  of each read is the offset of the request plus the sizes before it, computed in 64-bit
  arithmetic; when the offset of the request plus \<open>S\<close> is below \<open>2^63\<close> the signed
  offsets are that sum exactly and increase strictly.
\<close>

theorem C3_stream_read_chunking:
  fixes E :: extern and request :: Packet and connect :: conn and tr :: "event list"
  defines "S \<equiv> unat (Size request)"
  defines "C \<equiv> ReadBlockSize E"
  defines "cs \<equiv> chunks (Offset request) S C"
  assumes C: "0 < ReadBlockSize E"
    and rd: "\<And>h f off k b. retErr E h (Store (ExtentRead f off k b)) = None"
    and wr: "\<And>h p c. retErr E h (WriteToConn p c) = None"
  shows "\<exists>p t. handleStreamRead E request connect tr = Some (p, tr @ t)
      \<and> reads t = cs \<and> frames t = map snd cs
      \<and> length cs = (S + C - 1) div C
      \<and> sum_list (map snd cs) = S
      \<and> (\<forall>k<length cs.
            snd (cs ! k) = min (S - sum_list (map snd (take k cs))) C
            \<and> fst (cs ! k) = Offset request + of_nat (sum_list (map snd (take k cs))))
      \<and> (\<forall>k. Suc k < length cs \<longrightarrow> snd (cs ! k) = C)
      \<and> (sint (Offset request) + int S < 2 ^ 63 \<longrightarrow>
            (\<forall>k<length cs.
               sint (fst (cs ! k)) =
                 sint (Offset request) + int (sum_list (map snd (take k cs))))
            \<and> (\<forall>j k. j < k \<and> k < length cs \<longrightarrow> sint (fst (cs ! j)) < sint (fst (cs ! k))))"
proof -
  have C': "0 < C" using C by (simp add: C_def)
  from loop_ok [OF C rd wr, of connect "Size request" "Offset request" request tr]
  obtain p t where run: "handleStreamRead E request connect tr = Some (p, tr @ t)"
    and t: "reads t = cs" "frames t = map snd cs"
    unfolding handleStreamRead_def cs_def S_def C_def by blast
  have len: "length cs = (S + C - 1) div C"
    unfolding cs_def by (rule chunks_length [OF C'])
  have sum: "sum_list (map snd cs) = S"
    unfolding cs_def by (rule chunks_sum [OF C'])
  have pre: "sum_list (map snd (take k cs)) = k * C" if "k < length cs" for k
    using that unfolding cs_def by (rule chunks_prefix_sum [OF C'])
  have nth: "cs ! k = (Offset request + of_nat (k * C), min (S - k * C) C)"
    and less: "k * C < S" if "k < length cs" for k
    using chunks_nth [OF C', of k "Offset request" S] that unfolding cs_def by simp_all
  have each: "\<forall>k<length cs.
            snd (cs ! k) = min (S - sum_list (map snd (take k cs))) C
            \<and> fst (cs ! k) = Offset request + of_nat (sum_list (map snd (take k cs)))"
    by (simp add: pre nth)
  have full: "\<forall>k. Suc k < length cs \<longrightarrow> snd (cs ! k) = C"
    unfolding cs_def using chunks_full [OF C'] by blast
  have signed: "sint (fst (cs ! k)) = sint (Offset request) + int (k * C)"
    if "sint (Offset request) + int S < 2 ^ 63" and "k < length cs" for k
  proof -
    have "int (k * C) < int S" using less [OF that(2)] by (simp only: of_nat_less_iff)
    with that(1) have "sint (Offset request) + int (k * C) < 2 ^ 63" by linarith
    then show ?thesis by (simp only: nth [OF that(2)] fst_conv sint_offset)
  qed
  have mono: "sint (fst (cs ! j)) < sint (fst (cs ! k))"
    if "sint (Offset request) + int S < 2 ^ 63" and "j < k" and "k < length cs" for j k
  proof -
    have "j * C < k * C" using that(2) C' by simp
    then show ?thesis using signed [OF that(1), of j] signed [OF that(1), of k] that(2,3)
      by simp
  qed
  have ov: "sint (Offset request) + int S < 2 ^ 63 \<longrightarrow>
            (\<forall>k<length cs.
               sint (fst (cs ! k)) =
                 sint (Offset request) + int (sum_list (map snd (take k cs))))
            \<and> (\<forall>j k. j < k \<and> k < length cs \<longrightarrow> sint (fst (cs ! j)) < sint (fst (cs ! k)))"
    using signed mono by (simp add: pre)
  from run t len sum each full ov show ?thesis by blast
qed

theorem C3_witness:
  "0 < ReadBlockSize E0
   \<and> (\<forall>h f off k b. retErr E0 h (Store (ExtentRead f off k b)) = None)
   \<and> (\<forall>h p c. retErr E0 h (WriteToConn p c) = None)
   \<and> sint (Offset (pkt0\<lparr>Size := 5, Offset := 10\<rparr>))
        + int (unat (Size (pkt0\<lparr>Size := 5, Offset := 10\<rparr>))) < 2 ^ 63
   \<and> (\<exists>p t. handleStreamRead E0 (pkt0\<lparr>Size := 5, Offset := 10\<rparr>) conn0 [] = Some (p, t)
         \<and> reads t = [(10, 2), (12, 2), (14, 1)] \<and> frames t = [2, 2, 1])"
proof -
  have ch: "chunks 10 5 2 = [(10, 2), (12, 2), (14, 1)]" by code_simp
  have h: "0 < ReadBlockSize E0" "\<And>h f off k b. retErr E0 h (Store (ExtentRead f off k b)) = None"
    "\<And>h p c. retErr E0 h (WriteToConn p c) = None"
    by (simp_all add: E0_def)
  from C3_stream_read_chunking [OF h, of "pkt0\<lparr>Size := 5, Offset := 10\<rparr>" conn0 "[]"]
  obtain p t where "handleStreamRead E0 (pkt0\<lparr>Size := 5, Offset := 10\<rparr>) conn0 [] = Some (p, t)"
    "reads t = chunks 10 5 (ReadBlockSize E0)" "frames t = map snd (chunks 10 5 (ReadBlockSize E0))"
    by (auto simp: pkt0_def)
  moreover have "ReadBlockSize E0 = 2" by (simp add: E0_def)
  ultimately show ?thesis using h by (auto simp: ch pkt0_def)
qed

text \<open>
  At the offset \<open>2^63 - 1\<close> the second read is at a negative offset: the offsets do not
  increase and the second is not the first plus the size of the first frame.
\<close>

theorem C3_counterexample:
  "map_option (reads \<circ> snd)
     (handleStreamRead E0 (pkt0\<lparr>Size := 4, Offset := 0x7FFFFFFFFFFFFFFF\<rparr>) conn0 []) =
     Some [(0x7FFFFFFFFFFFFFFF, 2), (0x8000000000000001, 2)]
   \<and> sint (0x8000000000000001 :: i64) < sint (0x7FFFFFFFFFFFFFFF :: i64)"
  by code_simp

section \<open>The buffer pool\<close>




section \<open>A frame that cannot be written\<close>

text \<open>
  C5. The store refuses the read and the connection refuses the error frame: the handler
  logs and returns, and the connection is not closed. When the connection refuses a data
  frame the handler logs, closes the connection and returns.
\<close>

theorem C5_error_frame_write_failure:
  "handleStreamRead EreadFails (pkt0\<lparr>Size := 2\<rparr>) conn0 [] =
     Some (PackErrorBody E0 ''act'' ''io error'' (pkt0\<lparr>Size := 2, Data := [1, 1]\<rparr>),
       [BuffersGet 2, Ump (BeforeTP ''c_datanode_Read''), Store (ExtentRead 7 0 2 [0, 0]),
        Ump (AfterTP ''c_datanode_Read'' (Some ''io error'')),
        WriteToConn (PackErrorBody E0 ''act'' ''io error'' (pkt0\<lparr>Size := 2, Data := [1, 1]\<rparr>))
          conn0,
        Log LogErrorf ''act''])
   \<and> map_option (filter isClose \<circ> snd)
       (handleStreamRead EreadFails (pkt0\<lparr>Size := 2\<rparr>) conn0 []) = Some []
   \<and> map_option (filter isClose \<circ> snd)
       (handleStreamRead EwriteFails (pkt0\<lparr>Size := 2\<rparr>) conn0 []) = Some [ConnClose conn0]"
  by code_simp

end
